theory Spec2Isabelle
  imports Complex_Main "HOL-Library.Log_Nat" "HOL-Library.Sublist"
begin

section \<open>Python values used by the recommendation engine\<close>

subsection \<open>Strings\<close>

text \<open>
  Strings are byte strings; \<open>str.lower()\<close> maps the ASCII capitals to their small
  letters and leaves every other character alone.
\<close>

definition lower_char :: "char \<Rightarrow> char" where
  "lower_char c =
     (case map_of (zip ''ABCDEFGHIJKLMNOPQRSTUVWXYZ'' ''abcdefghijklmnopqrstuvwxyz'') c of
        None \<Rightarrow> c
      | Some l \<Rightarrow> l)"

definition str_lower :: "string \<Rightarrow> string" where
  "str_lower s = map lower_char s"

text \<open>\<open>startswith s w\<close> is \<open>s.startswith(w)\<close>; \<open>str_in w s\<close> is Python's \<open>w in s\<close>.\<close>

fun startswith :: "string \<Rightarrow> string \<Rightarrow> bool" where
  "startswith s [] = True"
| "startswith [] (w # ws) = False"
| "startswith (c # s) (w # ws) = (c = w \<and> startswith s ws)"

fun str_in :: "string \<Rightarrow> string \<Rightarrow> bool" where
  "str_in w [] = (w = [])"
| "str_in w (c # s) = (startswith (c # s) w \<or> str_in w s)"

text \<open>\<open>str(i)\<close> for an integer, as the f-strings of the scoring function print it.\<close>

definition digit_char :: "nat \<Rightarrow> char" where
  "digit_char d = ''0123456789'' ! (d mod 10)"

fun nat_digits :: "nat \<Rightarrow> string" where
  "nat_digits n =
     (if n < 10 then [digit_char n] else nat_digits (n div 10) @ [digit_char (n mod 10)])"

declare nat_digits.simps [simp del]

definition str_int :: "int \<Rightarrow> string" where
  "str_int i = (if i < 0 then CHR ''-'' # nat_digits (nat (- i)) else nat_digits (nat i))"

subsection \<open>Floats\<close>

text \<open>
  A Python float is an IEEE 754 binary64 number. It is modelled by the rational number it
  denotes; a literal, a product and a sum are the exact rational result rounded to the
  nearest binary64 value, ties to the even significand. Infinities and NaN are left out:
  every float of this program lies between 0 and 2.
\<close>

definition round_half_even :: "rat \<Rightarrow> int" where
  "round_half_even r =
     (let f = \<lfloor>r\<rfloor>; d = r - of_int f
      in if d < 1 / 2 then f
         else if 1 / 2 < d then f + 1
         else if even f then f else f + 1)"

definition pow2 :: "int \<Rightarrow> rat" where
  "pow2 e = (if 0 \<le> e then 2 ^ nat e else 1 / 2 ^ nat (- e))"

text \<open>The binary exponent of a positive rational: \<open>pow2 e \<le> a < pow2 (e + 1)\<close>.\<close>

definition ilog2 :: "rat \<Rightarrow> int" where
  "ilog2 a =
     (let (p, q) = quotient_of a; d = bitlen p - bitlen q
      in if pow2 d \<le> a then d else d - 1)"

definition binary64 :: "rat \<Rightarrow> rat" where
  "binary64 x =
     (if x = 0 then 0
      else let e = ilog2 \<bar>x\<bar>; u = pow2 (max (e - 52) (- 1074))
           in sgn x * of_int (round_half_even (\<bar>x\<bar> / u)) * u)"

definition fmul :: "rat \<Rightarrow> rat \<Rightarrow> rat" where
  "fmul a b = binary64 (a * b)"

definition fadd :: "rat \<Rightarrow> rat \<Rightarrow> rat" where
  "fadd a b = binary64 (a + b)"

text \<open>
  \<open>round(x, 2)\<close>: the decimal with two places nearest to the exact value of \<open>x\<close>
  (ties to even), converted back to the nearest float.
\<close>

text \<open>
  A decimal literal of the source: \<open>decimal 8 1\<close> is the float written \<open>0.8\<close>, the
  binary64 value nearest to 8 / 10; \<open>decimal 17 2\<close> is \<open>0.17\<close>. The literals \<open>0.0\<close>
  and \<open>1.0\<close> are exact and written 0 and 1.
\<close>

definition decimal :: "int \<Rightarrow> int \<Rightarrow> rat" where
  "decimal m k = binary64 (of_int m / 10 ^ nat k)"

definition py_round2 :: "rat \<Rightarrow> rat" where
  "py_round2 x = binary64 (of_int (round_half_even (x * 100)) / 100)"

subsection \<open>Dictionaries and the errors of reading them\<close>

datatype pyval = PInt int | PList "int list"

type_synonym pydict = "(string \<times> pyval) list"

datatype error = KeyError string | TypeError

text \<open>\<open>d.get(k, default)\<close> and \<open>d[k]\<close>.\<close>

definition dict_get :: "('k \<times> 'v) list \<Rightarrow> 'k \<Rightarrow> 'v \<Rightarrow> 'v" where
  "dict_get d k dflt = (case map_of d k of None \<Rightarrow> dflt | Some v \<Rightarrow> v)"

definition subscript :: "pydict \<Rightarrow> string \<Rightarrow> error + pyval" where
  "subscript d k = (case map_of d k of None \<Rightarrow> Inl (KeyError k) | Some v \<Rightarrow> Inr v)"

text \<open>\<open>a <= b\<close>: integers compare, lists compare lexicographically, mixed operands raise.\<close>

fun list_le :: "int list \<Rightarrow> int list \<Rightarrow> bool" where
  "list_le [] ys = True"
| "list_le (x # xs) [] = False"
| "list_le (x # xs) (y # ys) = (if x = y then list_le xs ys else x < y)"

fun py_le :: "pyval \<Rightarrow> pyval \<Rightarrow> error + bool" where
  "py_le (PInt a) (PInt b) = Inr (a \<le> b)"
| "py_le (PList a) (PList b) = Inr (list_le a b)"
| "py_le a b = Inl TypeError"

text \<open>\<open>v in c\<close> for an integer \<open>v\<close>: a list is searched, an integer is not iterable.\<close>

fun py_in :: "int \<Rightarrow> pyval \<Rightarrow> error + bool" where
  "py_in v (PList xs) = Inr (v \<in> set xs)"
| "py_in v (PInt c) = Inl TypeError"

text \<open>
  The chained comparison \<open>d['min'] <= v <= d['max']\<close>: \<open>d['max']\<close> is read only when
  the first comparison holds.
\<close>

definition within_range :: "pydict \<Rightarrow> int \<Rightarrow> error + bool" where
  "within_range d v =
     (case subscript d ''min'' of
        Inl e \<Rightarrow> Inl e
      | Inr lo \<Rightarrow>
          (case py_le lo (PInt v) of
             Inl e \<Rightarrow> Inl e
           | Inr False \<Rightarrow> Inr False
           | Inr True \<Rightarrow>
               (case subscript d ''max'' of
                  Inl e \<Rightarrow> Inl e
                | Inr hi \<Rightarrow> py_le (PInt v) hi)))"

section \<open>The data model\<close>

record Exercise =
  exercise_id :: string
  name :: string
  force :: "string option"
  level :: string
  mechanic :: "string option"
  equipment :: "string option"
  primaryMuscles :: "string list"
  secondaryMuscles :: "string list"
  instructions :: "string list"
  category :: "string option"
  images :: "string list"

record UserProfile =
  pain_level :: int
  mobility_level :: int
  condition :: string
  goals :: "string list"

record RecommendationScore =
  exercise :: Exercise
  score :: rat
  reasons :: "string list"
  warnings :: "string list"
  suitability :: string

section \<open>Intensity classification\<close>

text \<open>\<open>exercise.category.lower() if exercise.category else ''\<close>\<close>

definition category_lower :: "Exercise \<Rightarrow> string" where
  "category_lower ex =
     (case category ex of
        None \<Rightarrow> []
      | Some c \<Rightarrow> if c = [] then [] else str_lower c)"

definition level_map :: "(string \<times> string) list" where
  "level_map =
     [(''beginner'', ''low''),
      (''intermediate'', ''moderate''),
      (''advanced'', ''high''),
      (''expert'', ''very-high'')]"

definition calculate_intensity :: "Exercise \<Rightarrow> string" where
  "calculate_intensity ex =
     (let name_lower = str_lower (name ex);
          cat = category_lower ex
      in if list_ex (\<lambda>word. str_in word name_lower)
              [''jump'', ''explosive'', ''plyometric'', ''sprint'', ''burpee'']
         then ''very-high''
         else if list_ex (\<lambda>word. str_in word name_lower)
              [''squat'', ''deadlift'', ''press'', ''pull'', ''push'', ''weight'', ''heavy'']
         then ''high''
         else if cat \<in> set [''strength'', ''powerlifting'']
         then ''high''
         else if list_ex (\<lambda>word. str_in word name_lower)
              [''bridge'', ''plank'', ''lunge'', ''step'', ''walk'']
         then ''moderate''
         else if cat \<in> set [''cardio'', ''olympic weightlifting'']
         then ''moderate''
         else if list_ex (\<lambda>word. str_in word name_lower)
              [''stretch'', ''gentle'', ''slow'', ''breathing'']
         then ''low''
         else if cat \<in> set [''stretching'', ''flexibility'', ''mobility'']
         then ''low''
         else if list_ex (\<lambda>word. str_in word name_lower)
              [''passive'', ''rest'', ''meditation'', ''mindfulness'']
         then ''very-low''
         else dict_get level_map (level ex) ''moderate'')"

section \<open>Suitability ranges\<close>

definition pain_intensity_ranges :: "(string \<times> pydict) list" where
  "pain_intensity_ranges =
     [(''very-low'', [(''min'', PInt 8), (''max'', PInt 10), (''optimal'', PList [9, 10])]),
      (''low'', [(''min'', PInt 5), (''max'', PInt 10), (''optimal'', PList [6, 7, 8])]),
      (''moderate'', [(''min'', PInt 2), (''max'', PInt 7), (''optimal'', PList [3, 4, 5])]),
      (''high'', [(''min'', PInt 1), (''max'', PInt 4), (''optimal'', PList [1, 2, 3])]),
      (''very-high'', [(''min'', PInt 1), (''max'', PInt 2), (''optimal'', PList [1])])]"

definition default_range :: pydict where
  "default_range = [(''min'', PInt 1), (''max'', PInt 10), (''optimal'', PList [5])]"

definition get_pain_suitability :: "Exercise \<Rightarrow> int \<Rightarrow> pydict" where
  "get_pain_suitability ex user_pain =
     (let intensity = calculate_intensity ex
      in dict_get pain_intensity_ranges intensity default_range)"

definition mobility_intensity_ranges :: "(string \<times> pydict) list" where
  "mobility_intensity_ranges =
     [(''very-low'', [(''min'', PInt 1), (''max'', PInt 10), (''optimal'', PList [2, 3, 4])]),
      (''low'', [(''min'', PInt 2), (''max'', PInt 10), (''optimal'', PList [3, 4, 5])]),
      (''moderate'', [(''min'', PInt 4), (''max'', PInt 10), (''optimal'', PList [5, 6, 7])]),
      (''high'', [(''min'', PInt 6), (''max'', PInt 10), (''optimal'', PList [7, 8, 9])]),
      (''very-high'', [(''min'', PInt 8), (''max'', PInt 10), (''optimal'', PList [9, 10])])]"

text \<open>
  The category decides first; \<open>mobility_range_of cat intensity\<close> is the body of
  \<open>get_mobility_suitability\<close> after its two local variables are computed.
\<close>

definition mobility_range_of :: "string \<Rightarrow> string \<Rightarrow> pydict" where
  "mobility_range_of cat intensity =
     (if cat \<in> set [''stretching'', ''mobility'', ''flexibility'']
      then [(''min'', PInt 1), (''max'', PInt 10), (''optimal'', PList [2, 3, 4, 5])]
      else if cat = ''balance''
      then [(''min'', PInt 3), (''max'', PInt 10), (''optimal'', PList [4, 5, 6, 7])]
      else if cat = ''strength''
      then [(''min'', PInt 4), (''max'', PInt 10), (''optimal'', PList [5, 6, 7, 8])]
      else if cat = ''cardio''
      then [(''min'', PInt 6), (''max'', PInt 10), (''optimal'', PList [7, 8, 9, 10])]
      else dict_get mobility_intensity_ranges intensity default_range)"

definition get_mobility_suitability :: "Exercise \<Rightarrow> int \<Rightarrow> pydict" where
  "get_mobility_suitability ex user_mobility =
     (let intensity = calculate_intensity ex;
          cat = category_lower ex
      in mobility_range_of cat intensity)"

section \<open>Therapeutic benefits\<close>

definition get_therapeutic_benefits :: "Exercise \<Rightarrow> string list" where
  "get_therapeutic_benefits ex =
     (let name_lower = str_lower (name ex);
          cat = category_lower ex
      in (if cat = ''stretching'' \<or> str_in ''stretch'' name_lower
          then [''improves flexibility'', ''reduces muscle tension'',
                ''increases range of motion'']
          else [])
       @ (if cat = ''mobility'' \<or> str_in ''mobility'' name_lower
          then [''enhances joint mobility'', ''improves movement quality'',
                ''reduces stiffness'']
          else [])
       @ (if cat = ''strength'' \<or> str_in ''strength'' name_lower
          then [''builds muscle strength'', ''improves stability'',
                ''supports joint health'']
          else [])
       @ (if cat = ''balance'' \<or> str_in ''balance'' name_lower
          then [''improves balance'', ''enhances proprioception'', ''reduces fall risk'']
          else [])
       @ (if cat = ''cardio'' \<or> str_in ''cardio'' name_lower
          then [''improves cardiovascular health'', ''increases endurance'',
                ''boosts energy'']
          else [])
       @ (if str_in ''gentle'' name_lower \<or> str_in ''soft'' name_lower
          then [''pain relief'', ''muscle relaxation'', ''stress reduction'']
          else []))"

section \<open>Scoring\<close>

text \<open>
  The four blocks of \<open>calculate_recommendation_score\<close>. Each returns its sub-score
  with the reasons and the warnings it appends; the two blocks that read a range
  dictionary can raise.
\<close>

definition pain_scoring :: "Exercise \<Rightarrow> UserProfile \<Rightarrow> error + rat \<times> string list \<times> string list" where
  "pain_scoring ex u =
     (let pain_suitability = get_pain_suitability ex (pain_level u)
      in case within_range pain_suitability (pain_level u) of
           Inl e \<Rightarrow> Inl e
         | Inr False \<Rightarrow>
             Inr (decimal 1 1, [],
                  [''May not be suitable for your pain level ('' @ str_int (pain_level u)
                     @ ''/10)''])
         | Inr True \<Rightarrow>
             (case subscript pain_suitability ''optimal'' of
                Inl e \<Rightarrow> Inl e
              | Inr opt \<Rightarrow>
                  (case py_in (pain_level u) opt of
                     Inl e \<Rightarrow> Inl e
                   | Inr False \<Rightarrow>
                       Inr (decimal 8 1,
                            [''Suitable for your pain level ('' @ str_int (pain_level u)
                               @ ''/10)''], [])
                   | Inr True \<Rightarrow>
                       Inr (1,
                            [''Suitable for your pain level ('' @ str_int (pain_level u)
                               @ ''/10)'',
                             ''Optimal for your current pain level''], []))))"

definition mobility_scoring :: "Exercise \<Rightarrow> UserProfile \<Rightarrow> error + rat \<times> string list \<times> string list" where
  "mobility_scoring ex u =
     (let mobility_suitability = get_mobility_suitability ex (mobility_level u)
      in case within_range mobility_suitability (mobility_level u) of
           Inl e \<Rightarrow> Inl e
         | Inr False \<Rightarrow>
             Inr (decimal 1 1, [],
                  [''May be too challenging for your mobility level (''
                     @ str_int (mobility_level u) @ ''/10)''])
         | Inr True \<Rightarrow>
             (case subscript mobility_suitability ''optimal'' of
                Inl e \<Rightarrow> Inl e
              | Inr opt \<Rightarrow>
                  (case py_in (mobility_level u) opt of
                     Inl e \<Rightarrow> Inl e
                   | Inr False \<Rightarrow>
                       Inr (decimal 8 1,
                            [''Appropriate for your mobility level (''
                               @ str_int (mobility_level u) @ ''/10)''], [])
                   | Inr True \<Rightarrow>
                       Inr (1,
                            [''Appropriate for your mobility level (''
                               @ str_int (mobility_level u) @ ''/10)'',
                             ''Perfect match for your mobility level''], []))))"

text \<open>
  The loop over the muscles stops at the first one that contains the condition or is
  contained in it.
\<close>

fun condition_scan :: "string \<Rightarrow> string \<Rightarrow> string list \<Rightarrow> rat \<times> string list" where
  "condition_scan cond condition_lower [] = (decimal 5 1, [])"
| "condition_scan cond condition_lower (muscle # rest) =
     (if str_in condition_lower (str_lower muscle) \<or> str_in (str_lower muscle) condition_lower
      then (1, [''Specifically targets your '' @ cond @ '' condition''])
      else condition_scan cond condition_lower rest)"

definition condition_scoring :: "Exercise \<Rightarrow> UserProfile \<Rightarrow> rat \<times> string list" where
  "condition_scoring ex u =
     (let condition_lower = str_lower (condition u);
          all_muscles = primaryMuscles ex @ secondaryMuscles ex
      in condition_scan (condition u) condition_lower all_muscles)"

definition benefit_scoring :: "Exercise \<Rightarrow> rat \<times> string list" where
  "benefit_scoring ex =
     (let benefits = get_therapeutic_benefits ex;
          benefit_score = min (fmul (of_nat (length benefits)) (decimal 2 1)) 1
      in (benefit_score,
          if benefits \<noteq> []
          then [''Provides '' @ str_int (int (length benefits)) @ '' therapeutic benefit''
                  @ (if 1 < length benefits then ''s'' else [])]
          else []))"

text \<open>The accumulator: \<open>score = 0.0\<close> and the four \<open>score += sub * weight\<close>.\<close>

definition weighted_sum :: "rat \<Rightarrow> rat \<Rightarrow> rat \<Rightarrow> rat \<Rightarrow> rat" where
  "weighted_sum pain_score mobility_score condition_score benefit_score =
     fadd (fadd (fadd (fadd 0 (fmul pain_score (decimal 4 1)))
                      (fmul mobility_score (decimal 3 1)))
                (fmul condition_score (decimal 2 1)))
          (fmul benefit_score (decimal 1 1))"

definition suitability_of :: "rat \<Rightarrow> string" where
  "suitability_of s =
     (if decimal 9 1 \<le> s then ''excellent''
      else if decimal 7 1 \<le> s then ''good''
      else if decimal 5 1 \<le> s then ''moderate''
      else if decimal 3 1 \<le> s then ''poor''
      else ''contraindicated'')"

definition calculate_recommendation_score :: "Exercise \<Rightarrow> UserProfile \<Rightarrow> error + RecommendationScore" where
  "calculate_recommendation_score ex u =
     (case pain_scoring ex u of
        Inl e \<Rightarrow> Inl e
      | Inr (pain_score, r1, w1) \<Rightarrow>
          (case mobility_scoring ex u of
             Inl e \<Rightarrow> Inl e
           | Inr (mobility_score, r2, w2) \<Rightarrow>
               (let (condition_score, r3) = condition_scoring ex u;
                    (benefit_score, r4) = benefit_scoring ex;
                    s = weighted_sum pain_score mobility_score condition_score benefit_score
                in Inr \<lparr>exercise = ex,
                        score = py_round2 s,
                        reasons = r1 @ r2 @ r3 @ r4,
                        warnings = w1 @ w2,
                        suitability = suitability_of s\<rparr>)))"

section \<open>Relevance filter and recommendation assembly\<close>

definition pt_categories :: "string list" where
  "pt_categories =
     [''strength'', ''stretching'', ''cardio'', ''plyometrics'',
      ''strongman'', ''olympic weightlifting'', ''powerlifting'']"

definition pt_equipment :: "string list" where
  "pt_equipment =
     [''body only'', ''dumbbell'', ''resistance band'', ''foam roll'',
      ''stability ball'', ''medicine ball'', ''kettlebell'', ''barbell'',
      ''cable'', ''e-z curl bar'', ''other'']"

definition excluded_equipment :: "string list" where
  "excluded_equipment =
     [''machine'', ''leverage machine'', ''sled machine'', ''stepmill machine'']"

text \<open>
  One round of the filter loop: \<open>pt_relevant ex\<close> holds when neither \<open>continue\<close> is
  taken. \<open>None\<close> and the empty string are the falsy values of an optional string.
\<close>

definition pt_relevant :: "Exercise \<Rightarrow> bool" where
  "pt_relevant ex =
     (if (case category ex of
            None \<Rightarrow> False
          | Some c \<Rightarrow> c \<noteq> [] \<and> str_lower c \<notin> set pt_categories)
      then False
      else (case equipment ex of
              None \<Rightarrow> True
            | Some q \<Rightarrow>
                if q = [] then True
                else if str_lower q \<in> set excluded_equipment then False
                else if str_lower q \<notin> set pt_equipment then False
                else True))"

definition filter_pt_relevant :: "Exercise list \<Rightarrow> Exercise list" where
  "filter_pt_relevant exercises = filter pt_relevant exercises"

text \<open>The scoring loop: the first exception ends it.\<close>

fun score_all :: "Exercise list \<Rightarrow> UserProfile \<Rightarrow> error + RecommendationScore list" where
  "score_all [] u = Inr []"
| "score_all (ex # rest) u =
     (case calculate_recommendation_score ex u of
        Inl e \<Rightarrow> Inl e
      | Inr s \<Rightarrow>
          (case score_all rest u of
             Inl e \<Rightarrow> Inl e
           | Inr ss \<Rightarrow> Inr (s # ss)))"

text \<open>
  \<open>list.sort(key=..., reverse=True)\<close> reverses the list, sorts it stably in ascending
  order of the key and reverses the result. \<open>xs[:n]\<close> counts a negative \<open>n\<close> from the
  end.
\<close>

definition sort_reverse :: "('a \<Rightarrow> rat) \<Rightarrow> 'a list \<Rightarrow> 'a list" where
  "sort_reverse key xs = rev (sort_key key (rev xs))"

definition slice_to :: "int \<Rightarrow> 'a list \<Rightarrow> 'a list" where
  "slice_to n xs =
     (if 0 \<le> n then take (nat n) xs else take (nat (int (length xs) + n)) xs)"

definition safe_exercises :: "RecommendationScore list \<Rightarrow> RecommendationScore list" where
  "safe_exercises scored = filter (\<lambda>s. suitability s \<noteq> ''contraindicated'') scored"

definition get_recommendations :: "Exercise list \<Rightarrow> UserProfile \<Rightarrow> int \<Rightarrow> error + RecommendationScore list" where
  "get_recommendations exercises u limit =
     (let pt_exercises = filter_pt_relevant exercises
      in case score_all pt_exercises u of
           Inl e \<Rightarrow> Inl e
         | Inr scored_exercises \<Rightarrow>
             Inr (slice_to limit (sort_reverse score (safe_exercises scored_exercises))))"

definition is_stretching :: "Exercise \<Rightarrow> bool" where
  "is_stretching ex =
     (let cat = category_lower ex;
          name_lower = str_lower (name ex)
      in cat \<in> set [''stretching'', ''flexibility'', ''mobility'']
         \<or> str_in ''stretch'' name_lower)"

definition get_stretching_recommendations :: "Exercise list \<Rightarrow> UserProfile \<Rightarrow> int \<Rightarrow> error + RecommendationScore list" where
  "get_stretching_recommendations exercises u limit =
     (let pt_exercises = filter_pt_relevant exercises;
          stretching_exercises = filter is_stretching pt_exercises
      in case score_all stretching_exercises u of
           Inl e \<Rightarrow> Inl e
         | Inr scored_exercises \<Rightarrow>
             Inr (slice_to limit (sort_reverse score (safe_exercises scored_exercises))))"

section \<open>The classifier as the ordered rule list of the specification\<close>

text \<open>
  The specification describes the classifier as a list of (predicate, tier) rules tried
  in order, the first match winning, with the declared level as the fallback.
\<close>

fun first_match :: "(('a \<Rightarrow> bool) \<times> 'b) list \<Rightarrow> 'a \<Rightarrow> 'b \<Rightarrow> 'b" where
  "first_match [] x dflt = dflt"
| "first_match ((p, r) # rules) x dflt = (if p x then r else first_match rules x dflt)"

definition name_has :: "string list \<Rightarrow> Exercise \<Rightarrow> bool" where
  "name_has ws ex = list_ex (\<lambda>w. str_in w (str_lower (name ex))) ws"

definition category_among :: "string list \<Rightarrow> Exercise \<Rightarrow> bool" where
  "category_among cs ex = (category_lower ex \<in> set cs)"

definition spec_intensity_rules :: "((Exercise \<Rightarrow> bool) \<times> string) list" where
  "spec_intensity_rules =
     [(name_has [''jump'', ''explosive'', ''plyometric'', ''sprint'', ''burpee''], ''very-high''),
      (name_has [''squat'', ''deadlift'', ''press'', ''pull'', ''push'', ''weight'', ''heavy''],
       ''high''),
      (category_among [''strength'', ''powerlifting''], ''high''),
      (name_has [''bridge'', ''plank'', ''lunge'', ''step'', ''walk''], ''moderate''),
      (category_among [''cardio'', ''olympic weightlifting''], ''moderate''),
      (name_has [''stretch'', ''gentle'', ''slow'', ''breathing''], ''low''),
      (category_among [''stretching'', ''flexibility'', ''mobility''], ''low''),
      (name_has [''passive'', ''rest'', ''meditation'', ''mindfulness''], ''very-low'')]"

definition spec_level_fallback :: "Exercise \<Rightarrow> string" where
  "spec_level_fallback ex =
     (if level ex = ''beginner'' then ''low''
      else if level ex = ''intermediate'' then ''moderate''
      else if level ex = ''advanced'' then ''high''
      else if level ex = ''expert'' then ''very-high''
      else ''moderate'')"

definition spec_intensity :: "Exercise \<Rightarrow> string" where
  "spec_intensity ex = first_match spec_intensity_rules ex (spec_level_fallback ex)"

definition tiers :: "string set" where
  "tiers = {''very-low'', ''low'', ''moderate'', ''high'', ''very-high''}"

section \<open>Properties and inputs used in the statements\<close>

text \<open>A range dictionary is well formed when it has the three keys with values of the
  right kind and every optimal value lies between the minimum and the maximum.\<close>

definition optimal_within_bounds :: "pydict \<Rightarrow> bool" where
  "optimal_within_bounds d =
     (case (subscript d ''min'', subscript d ''max'', subscript d ''optimal'') of
        (Inr (PInt lo), Inr (PInt hi), Inr (PList opt)) \<Rightarrow>
          list_all (\<lambda>v. lo \<le> v \<and> v \<le> hi) opt
      | _ \<Rightarrow> False)"

definition gentle_hamstring_stretch :: Exercise where
  "gentle_hamstring_stretch =
     \<lparr>exercise_id = ''Gentle_Hamstring_Stretch'', name = ''Gentle Hamstring Stretch'',
      force = None, level = ''beginner'', mechanic = None, equipment = None,
      primaryMuscles = [''hamstrings''], secondaryMuscles = [], instructions = [],
      category = Some ''stretching'', images = []\<rparr>"

definition hamstring_profile :: UserProfile where
  "hamstring_profile =
     \<lparr>pain_level = 7, mobility_level = 4, condition = ''hamstring'', goals = []\<rparr>"

definition quad_rocker :: Exercise where
  "quad_rocker =
     \<lparr>exercise_id = ''Quad_Rocker'', name = ''Quad Rocker'',
      force = None, level = ''beginner'', mechanic = None, equipment = Some ''body only'',
      primaryMuscles = [''quadriceps''], secondaryMuscles = [], instructions = [],
      category = Some ''plyometrics'', images = []\<rparr>"

definition quadriceps_profile :: UserProfile where
  "quadriceps_profile =
     \<lparr>pain_level = 7, mobility_level = 4, condition = ''quadriceps'', goals = []\<rparr>"

definition dumbbell_bicep_curl :: Exercise where
  "dumbbell_bicep_curl =
     \<lparr>exercise_id = ''Dumbbell_Bicep_Curl'', name = ''Dumbbell Bicep Curl'',
      force = Some ''pull'', level = ''beginner'', mechanic = Some ''isolation'',
      equipment = Some ''dumbbell'',
      primaryMuscles = [''biceps''], secondaryMuscles = [''forearms''], instructions = [],
      category = Some ''strength'', images = []\<rparr>"

definition biceps_profile :: UserProfile where
  "biceps_profile =
     \<lparr>pain_level = 2, mobility_level = 4, condition = ''biceps'', goals = []\<rparr>"

definition knee_profile :: UserProfile where
  "knee_profile = \<lparr>pain_level = 2, mobility_level = 3, condition = ''knee'', goals = []\<rparr>"

definition blank_condition_profile :: UserProfile where
  "blank_condition_profile =
     \<lparr>pain_level = 7, mobility_level = 4, condition = [], goals = []\<rparr>"

definition leg_press_machine :: Exercise where
  "leg_press_machine =
     \<lparr>exercise_id = ''Leg_Press'', name = ''Leg Press'',
      force = Some ''push'', level = ''beginner'', mechanic = Some ''compound'',
      equipment = Some ''machine'',
      primaryMuscles = [''quadriceps''], secondaryMuscles = [''hamstrings''], instructions = [],
      category = Some ''strength'', images = []\<rparr>"

definition demo_catalog :: "Exercise list" where
  "demo_catalog = [quad_rocker, leg_press_machine, gentle_hamstring_stretch]"

section \<open>Substring search\<close>

text \<open>\<open>str_in w s\<close> holds exactly when \<open>w\<close> occurs in \<open>s\<close> as a contiguous part.\<close>

lemma startswith_prefix: "startswith s w = prefix w s"
  by (induction s w rule: startswith.induct) auto

lemma str_in_sublist: "str_in w s = sublist w s"
proof (induction s)
  case Nil
  then show ?case by simp
next
  case (Cons c s)
  then show ?case
    by (cases w) (simp_all add: startswith_prefix sublist_Cons_right)
qed

lemma str_in_iff: "str_in w s = (\<exists>before after. s = before @ w @ after)"
  by (simp add: str_in_sublist sublist_def)

section \<open>Rounding to binary64 is monotone\<close>

lemma pow2_powi: "pow2 e = 2 powi e"
  by (simp add: pow2_def power_int_def power_inverse [symmetric] inverse_eq_divide power_one_over)

lemma pow2_pos: "0 < pow2 e"
  by (simp add: pow2_powi)

lemma pow2_add: "pow2 (a + b) = pow2 a * pow2 b"
  by (simp add: pow2_powi power_int_add)

lemma pow2_nat: "pow2 (int n) = of_int (2 ^ n)"
  by (simp add: pow2_powi)

lemma pow2_mono: "a \<le> b \<Longrightarrow> pow2 a \<le> pow2 b"
  by (simp add: pow2_powi power_int_increasing)

lemma pow2_less_cancel: "pow2 a < pow2 b \<Longrightarrow> a < b"
  using pow2_mono [of b a] by (cases "a < b") simp_all

lemma bitlen_powi:
  assumes "0 < p"
  shows "(2::rat) powi (bitlen p - 1) \<le> of_int p" and "of_int p < (2::rat) powi bitlen p"
proof -
  have b: "2 ^ nat (bitlen p - 1) \<le> p" "p < 2 ^ nat (bitlen p)"
    using bitlen_bounds [OF assms] by simp_all
  have pos: "1 \<le> bitlen p"
    using assms bitlen_eq_zero_iff [of p] bitlen_nonneg [of p] by linarith
  have "(of_int (2 ^ nat (bitlen p - 1)) :: rat) \<le> of_int p"
    using b(1) of_int_le_iff by blast
  then show "(2::rat) powi (bitlen p - 1) \<le> of_int p"
    using pos by (simp add: power_int_def)
  have "(of_int p :: rat) < of_int (2 ^ nat (bitlen p))"
    using b(2) of_int_less_iff by blast
  then show "of_int p < (2::rat) powi bitlen p"
    using pos by (simp add: power_int_def)
qed

lemma ilog2_bounds:
  assumes "0 < a"
  shows "pow2 (ilog2 a) \<le> a" and "a < pow2 (ilog2 a + 1)"
proof -
  obtain p q where pq: "quotient_of a = (p, q)"
    by (cases "quotient_of a")
  have q: "0 < q" using pq by (rule quotient_of_denom_pos)
  have a: "a = of_int p / of_int q" using pq by (rule quotient_of_div)
  have p: "0 < p"
    using assms q unfolding a by (simp add: zero_less_divide_iff)
  let ?d = "bitlen p - bitlen q"
  have up: "a < 2 powi (?d + 1)"
  proof -
    have "of_int p / of_int q < (2::rat) powi bitlen p / 2 powi (bitlen q - 1)"
      using bitlen_powi [OF p] bitlen_powi [OF q] p q
      by (intro frac_less) simp_all
    also have "\<dots> = 2 powi (?d + 1)"
      by (simp add: power_int_diff [symmetric] algebra_simps)
    finally show ?thesis unfolding a .
  qed
  have lo: "2 powi (?d - 1) < a"
  proof -
    have "(2::rat) powi (bitlen p - 1) / 2 powi bitlen q < of_int p / of_int q"
      using bitlen_powi [OF p] bitlen_powi [OF q] p q
      by (intro frac_less2) simp_all
    moreover have "(2::rat) powi (bitlen p - 1) / 2 powi bitlen q = 2 powi (?d - 1)"
      by (simp add: power_int_diff [symmetric] algebra_simps)
    ultimately show ?thesis unfolding a by simp
  qed
  show "pow2 (ilog2 a) \<le> a"
    using lo by (simp add: ilog2_def pq pow2_powi Let_def)
  show "a < pow2 (ilog2 a + 1)"
    using up by (auto simp add: ilog2_def pq pow2_powi Let_def not_le)
qed

lemma ilog2_mono:
  assumes "0 < x" "x \<le> y"
  shows "ilog2 x \<le> ilog2 y"
proof -
  have "pow2 (ilog2 x) \<le> x" using assms(1) by (rule ilog2_bounds)
  also have "x \<le> y" by fact
  also have "y < pow2 (ilog2 y + 1)" using assms by (intro ilog2_bounds) simp
  finally show ?thesis using pow2_less_cancel by fastforce
qed

lemma round_half_even_of_int: "round_half_even (of_int n) = n"
  by (simp add: round_half_even_def)

lemma round_half_even_mono:
  assumes "r \<le> s"
  shows "round_half_even r \<le> round_half_even s"
proof (cases "\<lfloor>r\<rfloor> = \<lfloor>s\<rfloor>")
  case True
  then show ?thesis using assms
    by (auto simp add: round_half_even_def Let_def)
next
  case False
  then have "\<lfloor>r\<rfloor> + 1 \<le> \<lfloor>s\<rfloor>"
    using floor_mono [OF assms] by linarith
  moreover have "round_half_even r \<le> \<lfloor>r\<rfloor> + 1"
    by (simp add: round_half_even_def Let_def)
  moreover have "\<lfloor>s\<rfloor> \<le> round_half_even s"
    by (simp add: round_half_even_def Let_def)
  ultimately show ?thesis by linarith
qed

lemma binary64_pos:
  assumes "0 < x"
  shows "binary64 x = of_int (round_half_even (x / pow2 (max (ilog2 x - 52) (- 1074))))
           * pow2 (max (ilog2 x - 52) (- 1074))"
  using assms by (simp add: binary64_def Let_def)

lemma round_half_even_nonneg: "0 \<le> r \<Longrightarrow> 0 \<le> round_half_even r"
  using round_half_even_mono [of 0 r] round_half_even_of_int [of 0] by simp

lemma binary64_nonneg:
  assumes "0 \<le> x"
  shows "0 \<le> binary64 x"
proof (cases "x = 0")
  case True
  then show ?thesis by (simp add: binary64_def)
next
  case False
  then have x: "0 < x" using assms by simp
  have "0 \<le> x / pow2 (max (ilog2 x - 52) (- 1074))"
    using x pow2_pos by (simp add: less_imp_le)
  then show ?thesis
    unfolding binary64_pos [OF x]
    using pow2_pos round_half_even_nonneg by (simp add: less_imp_le)
qed

lemma binary64_mono:
  assumes "0 \<le> x" "x \<le> y"
  shows "binary64 x \<le> binary64 y"
proof (cases "x = 0")
  case True
  then show ?thesis using assms binary64_nonneg [of y] by (simp add: binary64_def)
next
  case False
  then have x: "0 < x" using assms by simp
  then have y: "0 < y" using assms by simp
  let ?kx = "max (ilog2 x - 52) (- 1074)"
  let ?ky = "max (ilog2 y - 52) (- 1074)"
  have e: "ilog2 x \<le> ilog2 y" using x assms(2) by (rule ilog2_mono)
  show ?thesis
  proof (cases "?kx = ?ky")
    case True
    have "x / pow2 ?ky \<le> y / pow2 ?ky"
      using assms(2) pow2_pos [of ?ky] by (simp add: divide_right_mono less_imp_le)
    then have "round_half_even (x / pow2 ?ky) \<le> round_half_even (y / pow2 ?ky)"
      by (rule round_half_even_mono)
    then have "(of_int (round_half_even (x / pow2 ?ky)) :: rat) * pow2 ?ky
        \<le> of_int (round_half_even (y / pow2 ?ky)) * pow2 ?ky"
      using pow2_pos [of ?ky] by (simp add: mult_right_mono less_imp_le)
    then show ?thesis
      unfolding binary64_pos [OF x] binary64_pos [OF y] True .
  next
    case False
    then have lt: "?kx < ?ky" using e by linarith
    then have ky: "?ky = ilog2 y - 52" by linarith
    have ex: "ilog2 x + 1 \<le> ilog2 y" using lt by linarith
    have kx_le: "?kx \<le> ilog2 y" using lt ky by linarith
    have "x < pow2 (ilog2 x + 1)" using x by (rule ilog2_bounds)
    also have "\<dots> \<le> pow2 (ilog2 y)" using ex by (rule pow2_mono)
    finally have xb: "x \<le> pow2 (ilog2 y)" by simp
    have yb: "pow2 (ilog2 y) \<le> y" using y by (rule ilog2_bounds)
    have split_x: "pow2 (ilog2 y) = of_int (2 ^ nat (ilog2 y - ?kx)) * pow2 ?kx"
    proof -
      have "pow2 (ilog2 y) = pow2 (int (nat (ilog2 y - ?kx)) + ?kx)"
        using kx_le by simp
      then show ?thesis by (simp only: pow2_add pow2_nat)
    qed
    have split_y: "pow2 (ilog2 y) = of_int (2 ^ 52) * pow2 ?ky"
    proof -
      have "pow2 (ilog2 y) = pow2 (int 52 + ?ky)" using ky by simp
      then show ?thesis by (simp only: pow2_add pow2_nat)
    qed
    have "x / pow2 ?kx \<le> of_int (2 ^ nat (ilog2 y - ?kx))"
      using xb pow2_pos [of ?kx] unfolding split_x by (simp add: pos_divide_le_eq)
    then have "round_half_even (x / pow2 ?kx) \<le> 2 ^ nat (ilog2 y - ?kx)"
      using round_half_even_mono round_half_even_of_int by metis
    then have "(of_int (round_half_even (x / pow2 ?kx)) :: rat) \<le> of_int (2 ^ nat (ilog2 y - ?kx))"
      using of_int_le_iff by blast
    then have bx: "binary64 x \<le> pow2 (ilog2 y)"
      unfolding binary64_pos [OF x] split_x
      using pow2_pos [of ?kx] by (simp add: mult_right_mono less_imp_le)
    have "of_int (2 ^ 52) \<le> y / pow2 ?ky"
      using yb pow2_pos [of ?ky] unfolding split_y by (simp add: pos_le_divide_eq)
    then have "2 ^ 52 \<le> round_half_even (y / pow2 ?ky)"
      using round_half_even_mono round_half_even_of_int by metis
    then have "(of_int (2 ^ 52) :: rat) \<le> of_int (round_half_even (y / pow2 ?ky))"
      using of_int_le_iff by blast
    then have "pow2 (ilog2 y) \<le> binary64 y"
      unfolding binary64_pos [OF y] split_y
      using pow2_pos [of ?ky] by (simp add: mult_right_mono less_imp_le)
    with bx show ?thesis by simp
  qed
qed

lemma fmul_mono:
  assumes "0 \<le> a" "a \<le> b" "0 \<le> k"
  shows "fmul a k \<le> fmul b k"
  unfolding fmul_def using assms by (intro binary64_mono mult_nonneg_nonneg mult_right_mono)

lemma fmul_nonneg: "0 \<le> a \<Longrightarrow> 0 \<le> k \<Longrightarrow> 0 \<le> fmul a k"
  unfolding fmul_def by (intro binary64_nonneg mult_nonneg_nonneg)

lemma fadd_mono:
  assumes "0 \<le> a" "a \<le> a'" "0 \<le> b" "b \<le> b'"
  shows "fadd a b \<le> fadd a' b'"
  unfolding fadd_def using assms by (intro binary64_mono add_nonneg_nonneg add_mono)

lemma fadd_nonneg: "0 \<le> a \<Longrightarrow> 0 \<le> b \<Longrightarrow> 0 \<le> fadd a b"
  unfolding fadd_def by (intro binary64_nonneg add_nonneg_nonneg)

lemma literal_nonneg: "0 \<le> m \<Longrightarrow> 0 \<le> decimal m k"
  unfolding decimal_def by (rule binary64_nonneg) simp

lemma weighted_sum_nonneg:
  assumes "0 \<le> p" "0 \<le> m" "0 \<le> c" "0 \<le> b"
  shows "0 \<le> weighted_sum p m c b"
  unfolding weighted_sum_def using assms
  by (intro fadd_nonneg fmul_nonneg literal_nonneg) simp_all

lemma weighted_sum_mono:
  assumes "0 \<le> p" "p \<le> p'" "0 \<le> m" "m \<le> m'" "0 \<le> c" "c \<le> c'" "0 \<le> b" "b \<le> b'"
  shows "weighted_sum p m c b \<le> weighted_sum p' m' c' b'"
  unfolding weighted_sum_def using assms
  by (intro fadd_mono fmul_mono fadd_nonneg fmul_nonneg literal_nonneg) simp_all

lemma py_round2_mono:
  assumes "0 \<le> x" "x \<le> y"
  shows "py_round2 x \<le> py_round2 y"
proof -
  have "round_half_even (x * 100) \<le> round_half_even (y * 100)"
    using assms by (intro round_half_even_mono) simp
  moreover have "0 \<le> round_half_even (x * 100)"
    using assms by (intro round_half_even_nonneg) simp
  ultimately show ?thesis
    unfolding py_round2_def by (intro binary64_mono) (simp_all add: divide_right_mono)
qed

lemma lowest_score:
  "py_round2 (weighted_sum (decimal 1 1) (decimal 1 1) (decimal 5 1) 0)
     = decimal 17 2"
  by code_simp

lemma highest_score: "py_round2 (weighted_sum 1 1 1 1) = 1"
  by code_simp

lemma literal_order:
  "decimal 1 1 \<le> decimal 8 1" "decimal 8 1 \<le> 1" "decimal 1 1 \<le> 1" "decimal 5 1 \<le> 1"
  "decimal 5 1 \<noteq> 1" "0 < decimal 17 2"
  by code_simp+

section \<open>Classification and range dictionaries\<close>

lemma dict_get_level: "dict_get level_map l ''moderate'' \<in> tiers"
  by (simp add: dict_get_def level_map_def tiers_def)

lemma calculate_intensity_in_tiers: "calculate_intensity ex \<in> tiers"
  using dict_get_level [of "level ex"]
  by (simp add: calculate_intensity_def Let_def tiers_def del: list_ex_Cons_iff set_simps)

lemma subscript_shape:
  "subscript [(''min'', PInt lo), (''max'', PInt hi), (''optimal'', PList opt)] ''min'' = Inr (PInt lo)"
  "subscript [(''min'', PInt lo), (''max'', PInt hi), (''optimal'', PList opt)] ''max'' = Inr (PInt hi)"
  "subscript [(''min'', PInt lo), (''max'', PInt hi), (''optimal'', PList opt)] ''optimal'' = Inr (PList opt)"
  by (simp_all add: subscript_def)

lemma within_range_shape:
  "within_range [(''min'', PInt lo), (''max'', PInt hi), (''optimal'', PList opt)] v
     = Inr (lo \<le> v \<and> v \<le> hi)"
  by (cases "lo \<le> v") (simp_all add: within_range_def subscript_shape)

lemma pain_range_shape:
  "\<exists>lo hi opt. dict_get pain_intensity_ranges t default_range
      = [(''min'', PInt lo), (''max'', PInt hi), (''optimal'', PList opt)]
     \<and> list_all (\<lambda>v. lo \<le> v \<and> v \<le> hi) opt"
  by (simp add: dict_get_def pain_intensity_ranges_def default_range_def)

lemma mobility_range_shape:
  "\<exists>lo hi opt. mobility_range_of c t
      = [(''min'', PInt lo), (''max'', PInt hi), (''optimal'', PList opt)]
     \<and> list_all (\<lambda>v. lo \<le> v \<and> v \<le> hi) opt"
  by (simp add: mobility_range_of_def dict_get_def mobility_intensity_ranges_def default_range_def)

lemma pain_scoring_shape:
  assumes "get_pain_suitability ex (pain_level u)
      = [(''min'', PInt lo), (''max'', PInt hi), (''optimal'', PList opt)]"
  shows "pain_scoring ex u =
     Inr (if lo \<le> pain_level u \<and> pain_level u \<le> hi
          then if pain_level u \<in> set opt
               then (1, [''Suitable for your pain level ('' @ str_int (pain_level u) @ ''/10)'',
                         ''Optimal for your current pain level''], [])
               else (decimal 8 1,
                     [''Suitable for your pain level ('' @ str_int (pain_level u) @ ''/10)''], [])
          else (decimal 1 1, [],
                [''May not be suitable for your pain level ('' @ str_int (pain_level u) @ ''/10)'']))"
  by (simp add: pain_scoring_def assms within_range_shape subscript_shape split: bool.splits)

lemma mobility_scoring_shape:
  assumes "get_mobility_suitability ex (mobility_level u)
      = [(''min'', PInt lo), (''max'', PInt hi), (''optimal'', PList opt)]"
  shows "mobility_scoring ex u =
     Inr (if lo \<le> mobility_level u \<and> mobility_level u \<le> hi
          then if mobility_level u \<in> set opt
               then (1, [''Appropriate for your mobility level ('' @ str_int (mobility_level u) @ ''/10)'',
                         ''Perfect match for your mobility level''], [])
               else (decimal 8 1,
                     [''Appropriate for your mobility level ('' @ str_int (mobility_level u) @ ''/10)''], [])
          else (decimal 1 1, [],
                [''May be too challenging for your mobility level ('' @ str_int (mobility_level u) @ ''/10)'']))"
  by (simp add: mobility_scoring_def assms within_range_shape subscript_shape split: bool.splits)

lemma level_fallback_eq: "dict_get level_map l ''moderate'' =
     (if l = ''beginner'' then ''low''
      else if l = ''intermediate'' then ''moderate''
      else if l = ''advanced'' then ''high''
      else if l = ''expert'' then ''very-high''
      else ''moderate'')"
  by (simp add: dict_get_def level_map_def)

lemma calculate_intensity_spec: "calculate_intensity ex = spec_intensity ex"
  unfolding calculate_intensity_def spec_intensity_def spec_intensity_rules_def
    name_has_def category_among_def spec_level_fallback_def level_fallback_eq Let_def
    first_match.simps
  by (rule refl)

lemma pain_scoring_total:
  "\<exists>s r w. pain_scoring ex u = Inr (s, r, w) \<and> decimal 1 1 \<le> s \<and> s \<le> 1"
proof -
  obtain lo hi opt where "get_pain_suitability ex (pain_level u)
      = [(''min'', PInt lo), (''max'', PInt hi), (''optimal'', PList opt)]"
    using pain_range_shape [of "calculate_intensity ex"]
    by (auto simp: get_pain_suitability_def)
  from pain_scoring_shape [OF this] show ?thesis
    by (simp add: literal_order)
qed

lemma mobility_scoring_total:
  "\<exists>s r w. mobility_scoring ex u = Inr (s, r, w) \<and> decimal 1 1 \<le> s \<and> s \<le> 1"
proof -
  obtain lo hi opt where "get_mobility_suitability ex (mobility_level u)
      = [(''min'', PInt lo), (''max'', PInt hi), (''optimal'', PList opt)]"
    using mobility_range_shape [of "category_lower ex" "calculate_intensity ex"]
    by (auto simp: get_mobility_suitability_def)
  from mobility_scoring_shape [OF this] show ?thesis
    by (simp add: literal_order)
qed

lemma optimal_within_boundsI:
  assumes "d = [(''min'', PInt lo), (''max'', PInt hi), (''optimal'', PList opt)]"
    and "list_all (\<lambda>v. lo \<le> v \<and> v \<le> hi) opt"
  shows "optimal_within_bounds d"
  using assms by (simp add: optimal_within_bounds_def subscript_shape)

section \<open>The scoring function never raises\<close>

lemma calculate_recommendation_score_eq:
  assumes "pain_scoring ex u = Inr (ps, r1, w1)" "mobility_scoring ex u = Inr (ms, r2, w2)"
  shows "calculate_recommendation_score ex u =
     Inr \<lparr>exercise = ex,
          score = py_round2 (weighted_sum ps ms (fst (condition_scoring ex u))
                               (fst (benefit_scoring ex))),
          reasons = r1 @ r2 @ snd (condition_scoring ex u) @ snd (benefit_scoring ex),
          warnings = w1 @ w2,
          suitability = suitability_of (weighted_sum ps ms (fst (condition_scoring ex u))
                               (fst (benefit_scoring ex)))\<rparr>"
  by (simp add: calculate_recommendation_score_def assms Let_def split: prod.splits)

lemma calculate_recommendation_score_Inr:
  "\<exists>r. calculate_recommendation_score ex u = Inr r"
proof -
  obtain ps r1 w1 where p: "pain_scoring ex u = Inr (ps, r1, w1)"
    using pain_scoring_total by blast
  obtain ms r2 w2 where m: "mobility_scoring ex u = Inr (ms, r2, w2)"
    using mobility_scoring_total by blast
  show ?thesis
    using calculate_recommendation_score_eq [OF p m] by blast
qed

section \<open>Bounds on the sub-scores and the score\<close>

lemma condition_scan_bounds:
  "decimal 5 1 \<le> fst (condition_scan c cl ms) \<and> fst (condition_scan c cl ms) \<le> 1"
  by (induction ms) (simp_all add: literal_order)

lemma condition_scoring_bounds:
  "decimal 5 1 \<le> fst (condition_scoring ex u)" "fst (condition_scoring ex u) \<le> 1"
  using condition_scan_bounds by (simp_all add: condition_scoring_def)

lemma benefit_scoring_bounds:
  "0 \<le> fst (benefit_scoring ex)" "fst (benefit_scoring ex) \<le> 1"
  using fmul_nonneg [of "of_nat (length (get_therapeutic_benefits ex))" "decimal 2 1"]
    literal_nonneg [of 2 1]
  by (simp_all add: benefit_scoring_def Let_def)

lemma score_lower_bound:
  assumes "calculate_recommendation_score ex u = Inr r"
  shows "decimal 17 2 \<le> score r"
proof -
  obtain ps r1 w1 where p: "pain_scoring ex u = Inr (ps, r1, w1)" "decimal 1 1 \<le> ps"
    using pain_scoring_total by blast
  obtain ms r2 w2 where m: "mobility_scoring ex u = Inr (ms, r2, w2)" "decimal 1 1 \<le> ms"
    using mobility_scoring_total by blast
  let ?c = "fst (condition_scoring ex u)" and ?b = "fst (benefit_scoring ex)"
  have lit: "0 \<le> decimal 1 1" "0 \<le> decimal 5 1"
    by (simp_all add: literal_nonneg)
  have "weighted_sum (decimal 1 1) (decimal 1 1) (decimal 5 1) 0 \<le> weighted_sum ps ms ?c ?b"
    using p(2) m(2) condition_scoring_bounds(1) benefit_scoring_bounds(1) lit
    by (intro weighted_sum_mono) simp_all
  moreover have "0 \<le> weighted_sum (decimal 1 1) (decimal 1 1) (decimal 5 1) 0"
    using lit by (intro weighted_sum_nonneg) simp_all
  ultimately have "py_round2 (weighted_sum (decimal 1 1) (decimal 1 1) (decimal 5 1) 0)
      \<le> py_round2 (weighted_sum ps ms ?c ?b)"
    by (intro py_round2_mono)
  moreover have "score r = py_round2 (weighted_sum ps ms ?c ?b)"
    using assms calculate_recommendation_score_eq [OF p(1) m(1)] by auto
  ultimately show ?thesis by (simp add: lowest_score)
qed

lemma score_upper_bound:
  assumes "calculate_recommendation_score ex u = Inr r"
  shows "score r \<le> 1"
proof -
  obtain ps r1 w1 where p: "pain_scoring ex u = Inr (ps, r1, w1)" "decimal 1 1 \<le> ps" "ps \<le> 1"
    using pain_scoring_total by blast
  obtain ms r2 w2 where m: "mobility_scoring ex u = Inr (ms, r2, w2)" "decimal 1 1 \<le> ms" "ms \<le> 1"
    using mobility_scoring_total by blast
  let ?c = "fst (condition_scoring ex u)" and ?b = "fst (benefit_scoring ex)"
  have lit: "0 \<le> decimal 1 1" "0 \<le> decimal 5 1"
    by (simp_all add: literal_nonneg)
  have nn: "0 \<le> ps" "0 \<le> ms" "0 \<le> ?c"
    using lit p(2) m(2) condition_scoring_bounds(1) [of ex u] by linarith+
  have "weighted_sum ps ms ?c ?b \<le> weighted_sum 1 1 1 1"
    using nn p(3) m(3) condition_scoring_bounds(2) benefit_scoring_bounds
    by (intro weighted_sum_mono) simp_all
  moreover have "0 \<le> weighted_sum ps ms ?c ?b"
    using nn benefit_scoring_bounds(1) by (intro weighted_sum_nonneg) simp_all
  ultimately have "py_round2 (weighted_sum ps ms ?c ?b) \<le> py_round2 (weighted_sum 1 1 1 1)"
    by (intro py_round2_mono)
  moreover have "score r = py_round2 (weighted_sum ps ms ?c ?b)"
    using assms calculate_recommendation_score_eq [OF p(1) m(1)] by auto
  ultimately show ?thesis by (simp add: highest_score)
qed

lemma term_floors:
  "decimal 4 2 \<le> fmul (decimal 1 1) (decimal 4 1)"
  "decimal 3 2 \<le> fmul (decimal 1 1) (decimal 3 1)"
  "decimal 1 1 \<le> fmul (decimal 5 1) (decimal 2 1)"
  by code_simp+

section \<open>Condition matching\<close>

lemma str_in_Nil: "str_in [] s"
  by (induction s) simp_all

lemma condition_scan_default_iff:
  "(fst (condition_scan c cl ms) = decimal 5 1)
     = (\<not> list_ex (\<lambda>muscle. str_in cl (str_lower muscle) \<or> str_in (str_lower muscle) cl) ms)"
  using literal_order(5) by (induction ms) auto

section \<open>The hamstring-stretch scenario\<close>

lemma scenario_strings:
  "str_lower ''Gentle Hamstring Stretch'' = ''gentle hamstring stretch''"
  "str_lower ''stretching'' = ''stretching''"
  "str_lower ''hamstring'' = ''hamstring''"
  "str_lower ''hamstrings'' = ''hamstrings''"
  by code_simp+

lemma scenario_numbers:
  "str_int 7 = ''7''" "str_int 4 = ''4''" "str_int 6 = ''6''"
  "min (fmul 6 (decimal 2 1)) 1 = 1"
  "suitability_of (weighted_sum 1 1 1 1) = ''excellent''"
  by code_simp+

lemma scenario_intensity:
  assumes "name ex = ''Gentle Hamstring Stretch''" "category ex = Some ''stretching''"
  shows "calculate_intensity ex = ''low''"
  by (simp add: calculate_intensity_def category_lower_def assms scenario_strings Let_def)

lemma scenario_benefits:
  assumes "name ex = ''Gentle Hamstring Stretch''" "category ex = Some ''stretching''"
  shows "get_therapeutic_benefits ex =
     [''improves flexibility'', ''reduces muscle tension'', ''increases range of motion'',
      ''pain relief'', ''muscle relaxation'', ''stress reduction'']"
  by (simp add: get_therapeutic_benefits_def category_lower_def assms scenario_strings Let_def)

section \<open>Scoring a list, sorting and slicing\<close>

lemma score_all_Inr:
  "\<exists>ss. score_all xs u = Inr ss \<and> map exercise ss = xs"
proof (induction xs)
  case Nil
  then show ?case by simp
next
  case (Cons x xs)
  obtain s where s: "calculate_recommendation_score x u = Inr s"
    using calculate_recommendation_score_Inr by blast
  obtain ps r1 w1 where p: "pain_scoring x u = Inr (ps, r1, w1)"
    using pain_scoring_total by blast
  obtain ms r2 w2 where m: "mobility_scoring x u = Inr (ms, r2, w2)"
    using mobility_scoring_total by blast
  have "exercise s = x"
    using s calculate_recommendation_score_eq [OF p m] by auto
  with Cons s show ?case by auto
qed

lemma sort_reverse_descending:
  "sorted_wrt (\<lambda>a b. key b \<le> key a) (sort_reverse key xs)"
proof -
  have "sorted (map key (sort_key key (rev xs)))" by simp
  then have "sorted_wrt (\<lambda>a b. key a \<le> key b) (sort_key key (rev xs))"
    by (simp add: sorted_map)
  then show ?thesis
    by (simp add: sort_reverse_def sorted_wrt_rev)
qed

lemma sort_reverse_stable:
  "filter (\<lambda>x. key x = k) (sort_reverse key xs) = filter (\<lambda>x. key x = k) xs"
proof -
  have "filter (\<lambda>x. key x = k) (sort_reverse key xs)
      = rev (filter (\<lambda>x. key x = k) (sort_key key (rev xs)))"
    by (simp add: sort_reverse_def rev_filter)
  also have "\<dots> = rev (filter (\<lambda>x. key x = k) (rev xs))"
    by (simp only: sort_key_stable)
  also have "\<dots> = filter (\<lambda>x. key x = k) xs"
    by (simp add: rev_filter)
  finally show ?thesis .
qed

lemma set_sort_reverse: "set (sort_reverse key xs) = set xs"
  by (simp add: sort_reverse_def)

lemma slice_to_prefix: "prefix (slice_to n xs) xs"
  by (simp add: slice_to_def take_is_prefix)

lemma set_slice_to: "set (slice_to n xs) \<subseteq> set xs"
  by (rule set_mono_prefix [OF slice_to_prefix])

lemma sorted_wrt_prefix: "prefix xs ys \<Longrightarrow> sorted_wrt P ys \<Longrightarrow> sorted_wrt P xs"
  by (clarsimp simp add: prefix_def sorted_wrt_append)

lemma pt_relevant_category:
  assumes "pt_relevant ex"
  shows "category_lower ex = [] \<or> category_lower ex \<in> set pt_categories"
  using assms
  by (auto simp add: pt_relevant_def category_lower_def split: option.splits if_splits)

lemma stretching_entry:
  assumes "pt_relevant ex" "is_stretching ex"
  shows "category_lower ex \<notin> {''flexibility'', ''mobility''}
     \<and> (category_lower ex = ''stretching''
        \<or> category_lower ex = []
        \<or> (str_in ''stretch'' (str_lower (name ex)) \<and> category_lower ex \<in> set pt_categories))"
  using pt_relevant_category [OF assms(1)] assms(2)
  by (auto simp add: is_stretching_def pt_categories_def Let_def)

text \<open>
  A small catalogue: the machine exercise is filtered out, the other two are ranked.
\<close>

lemma demo_recommendations2:
  "map_sum id (map (\<lambda>r. (name (exercise r), score r, suitability r)))
     (get_recommendations demo_catalog hamstring_profile 5)
   = Inr [(''Gentle Hamstring Stretch'', 1, ''excellent''), (''Quad Rocker'', decimal 8 1, ''good'')]"
  by code_simp

lemma demo_stretching:
  "map_sum id (map (\<lambda>r. (name (exercise r), score r, suitability r)))
     (get_stretching_recommendations demo_catalog hamstring_profile 8)
   = Inr [(''Gentle Hamstring Stretch'', 1, ''excellent'')]"
  by code_simp

section \<open>Claims\<close>

text \<open>
  C1. The claim: for every exercise and every profile with pain and mobility level in
  1..10, the returned score lies in [0,1] and the suitability label is the threshold
  function of that score (at least 0.9 excellent, at least 0.7 good, at least 0.5
  moderate, at least 0.3 poor, else contraindicated).

  The code applies the thresholds to the accumulated sum and stores the sum rounded to
  two decimals. For the beginner plyometrics exercise "Quad Rocker" and the profile
  (pain 7, mobility 4, condition "quadriceps") the three sub-scores are 1.0 and there is
  no benefit; the float sum 0.4 + 0.3 + 0.2 is 0.8999999999999999, so the label is
  "good", while the stored score is 0.9, for which the thresholds give "excellent".
  For "Dumbbell Bicep Curl" and the profile (pain 2, mobility 4, condition "biceps") the
  stored score is 0.9 as well and the label is "excellent": the label is not a function
  of the stored score.
\<close>

theorem reported_score_label_mismatch:
  "(case calculate_recommendation_score quad_rocker quadriceps_profile of
      Inl e \<Rightarrow> False
    | Inr r \<Rightarrow>
        score r = decimal 9 1
        \<and> suitability r = ''good''
        \<and> suitability_of (score r) = ''excellent'')
   \<and> (case calculate_recommendation_score dumbbell_bicep_curl biceps_profile of
      Inl e \<Rightarrow> False
    | Inr r \<Rightarrow> score r = decimal 9 1 \<and> suitability r = ''excellent'')"
  by code_simp

text \<open>
  C2. For every catalogue, every profile with pain and mobility level in 1..10 and every
  non-negative limit, \<open>get_recommendations\<close> returns a list of at most \<open>limit\<close> entries,
  none of them contraindicated, in descending order of score; for every score value the
  entries with that score are an initial part of the entries with that score among the
  safe scored exercises taken in the order of the relevance filter, so ties keep the
  traversal order.
\<close>

theorem get_recommendations_ranked:
  assumes "1 \<le> pain_level u" "pain_level u \<le> 10"
    and "1 \<le> mobility_level u" "mobility_level u \<le> 10"
    and "0 \<le> limit"
  shows "\<exists>scored rs.
           score_all (filter_pt_relevant exercises) u = Inr scored
           \<and> map exercise scored = filter_pt_relevant exercises
           \<and> get_recommendations exercises u limit = Inr rs
           \<and> length rs \<le> nat limit
           \<and> (\<forall>r \<in> set rs. suitability r \<noteq> ''contraindicated'')
           \<and> sorted_wrt (\<lambda>a b. score b \<le> score a) rs
           \<and> (\<forall>k. prefix (filter (\<lambda>r. score r = k) rs)
                        (filter (\<lambda>r. score r = k) (safe_exercises scored)))"
proof -
  obtain scored where sc: "score_all (filter_pt_relevant exercises) u = Inr scored"
    "map exercise scored = filter_pt_relevant exercises"
    using score_all_Inr by blast
  let ?sorted = "sort_reverse score (safe_exercises scored)"
  let ?rs = "slice_to limit ?sorted"
  have res: "get_recommendations exercises u limit = Inr ?rs"
    by (simp add: get_recommendations_def sc)
  have len: "length ?rs \<le> nat limit"
    using assms(5) by (simp add: slice_to_def)
  have "set ?rs \<subseteq> set (safe_exercises scored)"
    using set_slice_to [of limit ?sorted] by (simp add: set_sort_reverse)
  then have safe: "\<forall>r \<in> set ?rs. suitability r \<noteq> ''contraindicated''"
    by (auto simp add: safe_exercises_def)
  have ord: "sorted_wrt (\<lambda>a b. score b \<le> score a) ?rs"
    using slice_to_prefix sort_reverse_descending by (rule sorted_wrt_prefix)
  have stable: "prefix (filter (\<lambda>r. score r = k) ?rs)
                  (filter (\<lambda>r. score r = k) (safe_exercises scored))" for k
    using filter_mono_prefix [OF slice_to_prefix, of "\<lambda>r. score r = k" limit ?sorted]
    by (simp add: sort_reverse_stable)
  show ?thesis
  proof (intro exI conjI)
    show "score_all (filter_pt_relevant exercises) u = Inr scored" by (rule sc(1))
    show "map exercise scored = filter_pt_relevant exercises" by (rule sc(2))
    show "get_recommendations exercises u limit = Inr ?rs" by (rule res)
    show "length ?rs \<le> nat limit" by (rule len)
    show "\<forall>r \<in> set ?rs. suitability r \<noteq> ''contraindicated''" by (rule safe)
    show "sorted_wrt (\<lambda>a b. score b \<le> score a) ?rs" by (rule ord)
    show "\<forall>k. prefix (filter (\<lambda>r. score r = k) ?rs)
                  (filter (\<lambda>r. score r = k) (safe_exercises scored))"
      using stable by (rule allI)
  qed
qed

theorem get_recommendations_ranked_witness:
  "1 \<le> pain_level hamstring_profile \<and> pain_level hamstring_profile \<le> 10
   \<and> 1 \<le> mobility_level hamstring_profile \<and> mobility_level hamstring_profile \<le> 10
   \<and> (0::int) \<le> 1
   \<and> (\<exists>rs. get_recommendations demo_catalog hamstring_profile 1 = Inr rs
          \<and> length rs \<le> nat 1
          \<and> (\<forall>r \<in> set rs. suitability r \<noteq> ''contraindicated'')
          \<and> sorted_wrt (\<lambda>a b. score b \<le> score a) rs)"
proof -
  have h: "1 \<le> pain_level hamstring_profile" "pain_level hamstring_profile \<le> 10"
    "1 \<le> mobility_level hamstring_profile" "mobility_level hamstring_profile \<le> 10"
    "(0::int) \<le> 1"
    by (simp_all add: hamstring_profile_def)
  from get_recommendations_ranked [OF h, of demo_catalog] obtain scored rs where
    "get_recommendations demo_catalog hamstring_profile 1 = Inr rs"
    "length rs \<le> nat 1"
    "\<forall>r \<in> set rs. suitability r \<noteq> ''contraindicated''"
    "sorted_wrt (\<lambda>a b. score b \<le> score a) rs"
    by blast
  with h show ?thesis by blast
qed

text \<open>
  C3, as amended. For an exercise named "Gentle Hamstring Stretch" of category
  "stretching" without equipment, with primary muscles ["hamstrings"] and no secondary
  muscles, and the profile (pain 7, mobility 4, condition "hamstring"): the tier is low,
  the pain sub-score is 1.0, the mobility range is the stretching override (min 1, max 10,
  optimal 2..5) and, 4 being optimal, the mobility sub-score is 1.0, the condition
  sub-score is 1.0, there are 6 benefits and the benefit sub-score is 1.0; the returned
  score is 1.0 and the suitability is "excellent".
\<close>

theorem gentle_hamstring_stretch_scenario:
  assumes "name ex = ''Gentle Hamstring Stretch''" "category ex = Some ''stretching''"
    and "equipment ex = None"
    and "primaryMuscles ex = [''hamstrings'']" "secondaryMuscles ex = []"
    and "pain_level u = 7" "mobility_level u = 4" "condition u = ''hamstring''"
  shows "calculate_intensity ex = ''low''
     \<and> pain_scoring ex u
         = Inr (1, [''Suitable for your pain level (7/10)'',
                    ''Optimal for your current pain level''], [])
     \<and> get_mobility_suitability ex (mobility_level u)
         = [(''min'', PInt 1), (''max'', PInt 10), (''optimal'', PList [2, 3, 4, 5])]
     \<and> mobility_scoring ex u
         = Inr (1, [''Appropriate for your mobility level (4/10)'',
                    ''Perfect match for your mobility level''], [])
     \<and> condition_scoring ex u = (1, [''Specifically targets your hamstring condition''])
     \<and> length (get_therapeutic_benefits ex) = 6
     \<and> benefit_scoring ex = (1, [''Provides 6 therapeutic benefits''])
     \<and> calculate_recommendation_score ex u
         = Inr \<lparr>exercise = ex, score = 1,
                reasons = [''Suitable for your pain level (7/10)'',
                           ''Optimal for your current pain level'',
                           ''Appropriate for your mobility level (4/10)'',
                           ''Perfect match for your mobility level'',
                           ''Specifically targets your hamstring condition'',
                           ''Provides 6 therapeutic benefits''],
                warnings = [], suitability = ''excellent''\<rparr>"
proof -
  have i: "calculate_intensity ex = ''low''"
    using assms(1,2) by (rule scenario_intensity)
  have pr: "get_pain_suitability ex (pain_level u)
      = [(''min'', PInt 5), (''max'', PInt 10), (''optimal'', PList [6, 7, 8])]"
    by (simp add: get_pain_suitability_def i dict_get_def pain_intensity_ranges_def)
  have p: "pain_scoring ex u
         = Inr (1, [''Suitable for your pain level (7/10)'',
                    ''Optimal for your current pain level''], [])"
    using pain_scoring_shape [OF pr] by (simp add: assms scenario_numbers)
  have mr: "get_mobility_suitability ex (mobility_level u)
      = [(''min'', PInt 1), (''max'', PInt 10), (''optimal'', PList [2, 3, 4, 5])]"
    by (simp add: get_mobility_suitability_def mobility_range_of_def category_lower_def
        assms scenario_strings)
  have m: "mobility_scoring ex u
         = Inr (1, [''Appropriate for your mobility level (4/10)'',
                    ''Perfect match for your mobility level''], [])"
    using mobility_scoring_shape [OF mr] by (simp add: assms scenario_numbers)
  have c: "condition_scoring ex u = (1, [''Specifically targets your hamstring condition''])"
    by (simp add: condition_scoring_def assms scenario_strings Let_def)
  have b: "get_therapeutic_benefits ex =
     [''improves flexibility'', ''reduces muscle tension'', ''increases range of motion'',
      ''pain relief'', ''muscle relaxation'', ''stress reduction'']"
    using assms(1,2) by (rule scenario_benefits)
  have bs: "benefit_scoring ex = (1, [''Provides 6 therapeutic benefits''])"
    by (simp add: benefit_scoring_def b Let_def scenario_numbers)
  have r: "calculate_recommendation_score ex u
         = Inr \<lparr>exercise = ex, score = 1,
                reasons = [''Suitable for your pain level (7/10)'',
                           ''Optimal for your current pain level'',
                           ''Appropriate for your mobility level (4/10)'',
                           ''Perfect match for your mobility level'',
                           ''Specifically targets your hamstring condition'',
                           ''Provides 6 therapeutic benefits''],
                warnings = [], suitability = ''excellent''\<rparr>"
    using calculate_recommendation_score_eq [OF p m]
    by (simp add: c bs highest_score scenario_numbers)
  show ?thesis using i p mr m c b bs r by simp
qed

theorem gentle_hamstring_stretch_scenario_witness:
  "name gentle_hamstring_stretch = ''Gentle Hamstring Stretch''
   \<and> category gentle_hamstring_stretch = Some ''stretching''
   \<and> equipment gentle_hamstring_stretch = None
   \<and> primaryMuscles gentle_hamstring_stretch = [''hamstrings'']
   \<and> secondaryMuscles gentle_hamstring_stretch = []
   \<and> pain_level hamstring_profile = 7 \<and> mobility_level hamstring_profile = 4
   \<and> condition hamstring_profile = ''hamstring''
   \<and> mobility_scoring gentle_hamstring_stretch hamstring_profile
         = Inr (1, [''Appropriate for your mobility level (4/10)'',
                    ''Perfect match for your mobility level''], [])
   \<and> map_sum id score (calculate_recommendation_score gentle_hamstring_stretch hamstring_profile)
         = Inr 1
   \<and> map_sum id suitability
        (calculate_recommendation_score gentle_hamstring_stretch hamstring_profile)
         = Inr ''excellent''"
  using gentle_hamstring_stretch_scenario [of gentle_hamstring_stretch hamstring_profile]
  by (simp add: gentle_hamstring_stretch_def hamstring_profile_def)

text \<open>
  C3, as stated, gives the mobility sub-score as 0.8 and the total as 0.94. On the
  scenario's input the mobility sub-score is not 0.8 and the score is not 0.94.
\<close>

theorem gentle_hamstring_stretch_counterexample:
  "map_sum id fst (mobility_scoring gentle_hamstring_stretch hamstring_profile)
     \<noteq> Inr (decimal 8 1)
   \<and> map_sum id score (calculate_recommendation_score gentle_hamstring_stretch hamstring_profile)
     \<noteq> Inr (decimal 94 2)"
  by code_simp

text \<open>
  C4. For every exercise \<open>calculate_intensity\<close> returns one of the five tiers, and it is
  the first-match evaluation of the ordered rules: very-high name keywords; high name
  keywords, then the high categories; moderate name keywords, then the moderate
  categories; low name keywords, then the low categories; very-low name keywords; and
  last the declared level (beginner low, intermediate moderate, advanced high, expert
  very-high, anything else moderate). Being a function of the exercise, the tier is the
  same at every call.
\<close>

theorem calculate_intensity_first_match:
  "calculate_intensity ex = spec_intensity ex \<and> calculate_intensity ex \<in> tiers"
  using calculate_intensity_spec calculate_intensity_in_tiers by simp

text \<open>
  C5. Every suitability range has its optimal values between its minimum and its
  maximum: on the pain axis for every tier string (an unknown tier gets the default
  range), on the mobility axis for every category and every tier string, for the default
  range itself, and so for the ranges computed for any exercise.
\<close>

theorem suitability_ranges_contain_optimal:
  "optimal_within_bounds (dict_get pain_intensity_ranges t default_range)
   \<and> optimal_within_bounds (mobility_range_of c t)
   \<and> optimal_within_bounds (dict_get mobility_intensity_ranges t default_range)
   \<and> optimal_within_bounds default_range
   \<and> optimal_within_bounds (get_pain_suitability ex p)
   \<and> optimal_within_bounds (get_mobility_suitability ex m)"
proof -
  have pain: "optimal_within_bounds (dict_get pain_intensity_ranges t' default_range)" for t'
    using pain_range_shape [of t'] optimal_within_boundsI by blast
  have mob: "optimal_within_bounds (mobility_range_of c' t')" for c' t'
    using mobility_range_shape [of c' t'] optimal_within_boundsI by blast
  have tbl: "optimal_within_bounds (dict_get mobility_intensity_ranges t default_range)"
    by (simp add: dict_get_def mobility_intensity_ranges_def default_range_def
        optimal_within_bounds_def subscript_def)
  have dflt: "optimal_within_bounds default_range"
    by (simp add: default_range_def optimal_within_bounds_def subscript_def)
  show ?thesis
    using pain mob tbl dflt
    by (simp add: get_pain_suitability_def get_mobility_suitability_def)
qed

text \<open>
  C6. For every exercise and every profile with pain and mobility level in 1..10,
  \<open>calculate_recommendation_score\<close> returns a value: no dictionary read and no
  comparison in classification, range derivation or scoring raises.
\<close>

theorem calculate_recommendation_score_total:
  assumes "1 \<le> pain_level u" "pain_level u \<le> 10"
    and "1 \<le> mobility_level u" "mobility_level u \<le> 10"
  shows "\<exists>r. calculate_recommendation_score ex u = Inr r"
  by (rule calculate_recommendation_score_Inr)

theorem calculate_recommendation_score_total_witness:
  "1 \<le> pain_level hamstring_profile \<and> pain_level hamstring_profile \<le> 10
   \<and> 1 \<le> mobility_level hamstring_profile \<and> mobility_level hamstring_profile \<le> 10
   \<and> (\<exists>r. calculate_recommendation_score gentle_hamstring_stretch hamstring_profile = Inr r)"
  using calculate_recommendation_score_total [of hamstring_profile gentle_hamstring_stretch]
  by (simp add: hamstring_profile_def)

text \<open>
  C7. For a fixed exercise and a profile in which only the pain level varies: when
  \<open>p1\<close> lies outside the exercise's pain range and \<open>p2\<close> inside it, the pain sub-score
  at \<open>p1\<close> is 0.1, the pain sub-score at \<open>p2\<close> is 1.0 when \<open>p2\<close> is an optimal value and
  0.8 otherwise, and the first is at most the second.
\<close>

theorem pain_subscore_monotone:
  assumes "within_range (get_pain_suitability ex p1) p1 = Inr False"
    and "within_range (get_pain_suitability ex p2) p2 = Inr True"
  shows "\<exists>s1 r1 w1 s2 r2 w2 opt.
           pain_scoring ex (u\<lparr>pain_level := p1\<rparr>) = Inr (s1, r1, w1)
           \<and> pain_scoring ex (u\<lparr>pain_level := p2\<rparr>) = Inr (s2, r2, w2)
           \<and> subscript (get_pain_suitability ex p2) ''optimal'' = Inr (PList opt)
           \<and> s1 = decimal 1 1
           \<and> s2 = (if p2 \<in> set opt then 1 else decimal 8 1)
           \<and> s1 \<le> s2"
proof -
  obtain lo hi opt where d: "dict_get pain_intensity_ranges (calculate_intensity ex) default_range
      = [(''min'', PInt lo), (''max'', PInt hi), (''optimal'', PList opt)]"
    using pain_range_shape [of "calculate_intensity ex"] by blast
  then have g: "get_pain_suitability ex p = [(''min'', PInt lo), (''max'', PInt hi), (''optimal'', PList opt)]" for p
    by (simp add: get_pain_suitability_def)
  have out: "\<not> (lo \<le> p1 \<and> p1 \<le> hi)" and inside: "lo \<le> p2 \<and> p2 \<le> hi"
    using assms by (simp_all add: g within_range_shape)
  have 1: "pain_scoring ex (u\<lparr>pain_level := p1\<rparr>)
      = Inr (decimal 1 1, [],
             [''May not be suitable for your pain level ('' @ str_int p1 @ ''/10)''])"
    using pain_scoring_shape [of ex "u\<lparr>pain_level := p1\<rparr>" lo hi opt] out by (simp add: g)
  have 2: "pain_scoring ex (u\<lparr>pain_level := p2\<rparr>)
      = Inr (if p2 \<in> set opt
             then (1, [''Suitable for your pain level ('' @ str_int p2 @ ''/10)'',
                       ''Optimal for your current pain level''], [])
             else (decimal 8 1,
                   [''Suitable for your pain level ('' @ str_int p2 @ ''/10)''], []))"
    using pain_scoring_shape [of ex "u\<lparr>pain_level := p2\<rparr>" lo hi opt] inside by (simp add: g)
  show ?thesis
    using 1 2 literal_order by (auto simp add: g subscript_shape)
qed

theorem pain_subscore_monotone_witness:
  "within_range (get_pain_suitability gentle_hamstring_stretch 2) 2 = Inr False
   \<and> within_range (get_pain_suitability gentle_hamstring_stretch 7) 7 = Inr True
   \<and> pain_scoring gentle_hamstring_stretch (knee_profile\<lparr>pain_level := 2\<rparr>)
       = Inr (decimal 1 1, [], [''May not be suitable for your pain level (2/10)''])
   \<and> pain_scoring gentle_hamstring_stretch (knee_profile\<lparr>pain_level := 7\<rparr>)
       = Inr (1, [''Suitable for your pain level (7/10)'',
                  ''Optimal for your current pain level''], [])
   \<and> decimal 1 1 \<le> (1::rat)"
proof -
  have a: "within_range (get_pain_suitability gentle_hamstring_stretch 2) 2 = Inr False"
    by code_simp
  have b: "within_range (get_pain_suitability gentle_hamstring_stretch 7) 7 = Inr True"
    by code_simp
  have c: "pain_scoring gentle_hamstring_stretch (knee_profile\<lparr>pain_level := 2\<rparr>)
       = Inr (decimal 1 1, [], [''May not be suitable for your pain level (2/10)''])"
    by code_simp
  have d: "pain_scoring gentle_hamstring_stretch (knee_profile\<lparr>pain_level := 7\<rparr>)
       = Inr (1, [''Suitable for your pain level (7/10)'',
                  ''Optimal for your current pain level''], [])"
    by code_simp
  from pain_subscore_monotone [OF a b, of knee_profile] c d a b
  show ?thesis by auto
qed

text \<open>
  C8. For every catalogue and every profile with pain and mobility level in 1..10, no
  entry returned by \<open>get_stretching_recommendations\<close> has the lower-cased category
  "flexibility" or "mobility": the relevance filter runs first and its allowed
  categories exclude both. Every returned entry has the category "stretching", or an
  empty or missing category, or a name containing "stretch" and an allowed category.
\<close>

theorem stretching_recommendations_categories:
  assumes "1 \<le> pain_level u" "pain_level u \<le> 10"
    and "1 \<le> mobility_level u" "mobility_level u \<le> 10"
  shows "\<exists>rs. get_stretching_recommendations exercises u limit = Inr rs
     \<and> (\<forall>r \<in> set rs.
          category_lower (exercise r) \<notin> {''flexibility'', ''mobility''}
          \<and> (category_lower (exercise r) = ''stretching''
             \<or> category_lower (exercise r) = []
             \<or> (str_in ''stretch'' (str_lower (name (exercise r)))
                \<and> category_lower (exercise r) \<in> set pt_categories)))"
proof -
  let ?xs = "filter is_stretching (filter_pt_relevant exercises)"
  obtain scored where sc: "score_all ?xs u = Inr scored" "map exercise scored = ?xs"
    using score_all_Inr by blast
  let ?rs = "slice_to limit (sort_reverse score (safe_exercises scored))"
  have res: "get_stretching_recommendations exercises u limit = Inr ?rs"
    by (simp add: get_stretching_recommendations_def sc Let_def)
  have "set ?rs \<subseteq> set scored"
    using set_slice_to [of limit "sort_reverse score (safe_exercises scored)"]
    by (auto simp add: set_sort_reverse safe_exercises_def)
  then have "exercise r \<in> set ?xs" if "r \<in> set ?rs" for r
    using that sc(2) by (metis image_eqI set_map subsetD)
  then have "pt_relevant (exercise r) \<and> is_stretching (exercise r)" if "r \<in> set ?rs" for r
    using that by (auto simp add: filter_pt_relevant_def)
  then show ?thesis
    using res stretching_entry by blast
qed

theorem stretching_recommendations_categories_witness:
  "1 \<le> pain_level hamstring_profile \<and> pain_level hamstring_profile \<le> 10
   \<and> 1 \<le> mobility_level hamstring_profile \<and> mobility_level hamstring_profile \<le> 10
   \<and> (\<exists>rs. get_stretching_recommendations demo_catalog hamstring_profile 8 = Inr rs
          \<and> (\<forall>r \<in> set rs. category_lower (exercise r) \<notin> {''flexibility'', ''mobility''}))"
proof -
  have h: "1 \<le> pain_level hamstring_profile" "pain_level hamstring_profile \<le> 10"
    "1 \<le> mobility_level hamstring_profile" "mobility_level hamstring_profile \<le> 10"
    by (simp_all add: hamstring_profile_def)
  from stretching_recommendations_categories [OF h, of demo_catalog 8] obtain rs where
    "get_stretching_recommendations demo_catalog hamstring_profile 8 = Inr rs"
    "\<forall>r \<in> set rs. category_lower (exercise r) \<notin> {''flexibility'', ''mobility''}"
    by blast
  with h show ?thesis by blast
qed

text \<open>
  C9. For an exercise with at least one primary or secondary muscle and a profile whose
  condition is the empty string (pain and mobility level in 1..10), the condition
  sub-score is 1.0 and the condition reason is among the reasons returned: the empty
  string is contained in the first muscle name. For any profile the neutral sub-score
  0.5 is the result exactly when no muscle contains the condition or is contained in it,
  which includes the empty muscle list.
\<close>

theorem empty_condition_matches_first_muscle:
  assumes "condition u = []"
    and "primaryMuscles ex @ secondaryMuscles ex \<noteq> []"
    and "1 \<le> pain_level u" "pain_level u \<le> 10"
    and "1 \<le> mobility_level u" "mobility_level u \<le> 10"
  shows "condition_scoring ex u = (1, [''Specifically targets your  condition''])
     \<and> (\<exists>r. calculate_recommendation_score ex u = Inr r
            \<and> ''Specifically targets your  condition'' \<in> set (reasons r))
     \<and> ((fst (condition_scoring ex v) = decimal 5 1)
          = (\<not> list_ex (\<lambda>muscle. str_in (str_lower (condition v)) (str_lower muscle)
                                 \<or> str_in (str_lower muscle) (str_lower (condition v)))
                 (primaryMuscles ex @ secondaryMuscles ex)))"
proof -
  obtain m ms where ms: "primaryMuscles ex @ secondaryMuscles ex = m # ms"
    using assms(2) by (cases "primaryMuscles ex @ secondaryMuscles ex") simp_all
  have c: "condition_scoring ex u = (1, [''Specifically targets your  condition''])"
    by (simp add: condition_scoring_def Let_def ms assms(1) str_lower_def str_in_Nil)
  obtain ps r1 w1 where p: "pain_scoring ex u = Inr (ps, r1, w1)"
    using pain_scoring_total by blast
  obtain mb r2 w2 where m: "mobility_scoring ex u = Inr (mb, r2, w2)"
    using mobility_scoring_total by blast
  have r: "\<exists>r. calculate_recommendation_score ex u = Inr r
            \<and> ''Specifically targets your  condition'' \<in> set (reasons r)"
    using calculate_recommendation_score_eq [OF p m] by (simp add: c)
  have d: "(fst (condition_scoring ex v) = decimal 5 1)
          = (\<not> list_ex (\<lambda>muscle. str_in (str_lower (condition v)) (str_lower muscle)
                                 \<or> str_in (str_lower muscle) (str_lower (condition v)))
                 (primaryMuscles ex @ secondaryMuscles ex))"
    unfolding condition_scoring_def Let_def by (rule condition_scan_default_iff)
  show ?thesis using c r d by blast
qed

theorem empty_condition_matches_first_muscle_witness:
  "condition blank_condition_profile = []
   \<and> primaryMuscles gentle_hamstring_stretch @ secondaryMuscles gentle_hamstring_stretch \<noteq> []
   \<and> 1 \<le> pain_level blank_condition_profile \<and> pain_level blank_condition_profile \<le> 10
   \<and> 1 \<le> mobility_level blank_condition_profile \<and> mobility_level blank_condition_profile \<le> 10
   \<and> condition_scoring gentle_hamstring_stretch blank_condition_profile
       = (1, [''Specifically targets your  condition''])"
  using empty_condition_matches_first_muscle [of blank_condition_profile gentle_hamstring_stretch]
  by (simp add: blank_condition_profile_def gentle_hamstring_stretch_def)

text \<open>
  C10. For every exercise and every profile with pain and mobility level in 1..10 the
  returned score is at least 0.17, hence never 0: the pain term is at least 0.04, the
  mobility term at least 0.03, the condition term at least 0.1 and the benefit term at
  least 0.
\<close>

theorem score_at_least_017:
  assumes "1 \<le> pain_level u" "pain_level u \<le> 10"
    and "1 \<le> mobility_level u" "mobility_level u \<le> 10"
  shows "\<exists>r ps r1 w1 ms r2 w2.
           calculate_recommendation_score ex u = Inr r
           \<and> decimal 17 2 \<le> score r \<and> score r \<noteq> 0
           \<and> pain_scoring ex u = Inr (ps, r1, w1)
           \<and> decimal 4 2 \<le> fmul ps (decimal 4 1)
           \<and> mobility_scoring ex u = Inr (ms, r2, w2)
           \<and> decimal 3 2 \<le> fmul ms (decimal 3 1)
           \<and> decimal 1 1 \<le> fmul (fst (condition_scoring ex u)) (decimal 2 1)
           \<and> 0 \<le> fmul (fst (benefit_scoring ex)) (decimal 1 1)"
proof -
  obtain r where r: "calculate_recommendation_score ex u = Inr r"
    using calculate_recommendation_score_Inr by blast
  obtain ps r1 w1 where p: "pain_scoring ex u = Inr (ps, r1, w1)" "decimal 1 1 \<le> ps"
    using pain_scoring_total by blast
  obtain ms r2 w2 where m: "mobility_scoring ex u = Inr (ms, r2, w2)" "decimal 1 1 \<le> ms"
    using mobility_scoring_total by blast
  have lit: "0 \<le> decimal 1 1" "0 \<le> decimal 5 1" "0 \<le> decimal 4 1" "0 \<le> decimal 3 1"
    "0 \<le> decimal 2 1"
    by (simp_all add: literal_nonneg)
  have s: "decimal 17 2 \<le> score r" using r by (rule score_lower_bound)
  then have nz: "score r \<noteq> 0" using literal_order by auto
  have "fmul (decimal 1 1) (decimal 4 1) \<le> fmul ps (decimal 4 1)"
    using lit p(2) by (intro fmul_mono) simp_all
  then have pt: "decimal 4 2 \<le> fmul ps (decimal 4 1)"
    using term_floors(1) by simp
  have "fmul (decimal 1 1) (decimal 3 1) \<le> fmul ms (decimal 3 1)"
    using lit m(2) by (intro fmul_mono) simp_all
  then have mt: "decimal 3 2 \<le> fmul ms (decimal 3 1)"
    using term_floors(2) by simp
  have "fmul (decimal 5 1) (decimal 2 1) \<le> fmul (fst (condition_scoring ex u)) (decimal 2 1)"
    using lit condition_scoring_bounds(1) by (intro fmul_mono) simp_all
  then have ct: "decimal 1 1 \<le> fmul (fst (condition_scoring ex u)) (decimal 2 1)"
    using term_floors(3) by simp
  have bt: "0 \<le> fmul (fst (benefit_scoring ex)) (decimal 1 1)"
    using lit benefit_scoring_bounds(1) by (intro fmul_nonneg) simp_all
  show ?thesis
    using r s nz p(1) pt m(1) mt ct bt by blast
qed

theorem score_at_least_017_witness:
  "1 \<le> pain_level hamstring_profile \<and> pain_level hamstring_profile \<le> 10
   \<and> 1 \<le> mobility_level hamstring_profile \<and> mobility_level hamstring_profile \<le> 10
   \<and> (\<exists>r. calculate_recommendation_score gentle_hamstring_stretch hamstring_profile = Inr r
          \<and> decimal 17 2 \<le> score r \<and> score r \<noteq> 0)"
proof -
  have h: "1 \<le> pain_level hamstring_profile" "pain_level hamstring_profile \<le> 10"
    "1 \<le> mobility_level hamstring_profile" "mobility_level hamstring_profile \<le> 10"
    by (simp_all add: hamstring_profile_def)
  from score_at_least_017 [OF h, of gentle_hamstring_stretch] obtain r where
    "calculate_recommendation_score gentle_hamstring_stretch hamstring_profile = Inr r"
    "decimal 17 2 \<le> score r" "score r \<noteq> 0"
    by blast
  with h show ?thesis by blast
qed

end
